theory Spec2Isabelle
  imports Complex_Main
begin

section \<open>Go strings\<close>

text \<open>
  A Go string is a sequence of bytes; \<open>len\<close> counts bytes. It is modelled by
  \<^typ>\<open>string\<close>, a list of 8-bit characters, so a code point outside ASCII is the two to
  four bytes of its UTF-8 encoding.
\<close>

definition byte :: "char \<Rightarrow> nat" where
  "byte c = of_char c"

text \<open>\<open>strings.HasPrefix\<close>.\<close>

fun HasPrefix :: "string \<Rightarrow> string \<Rightarrow> bool" where
  "HasPrefix s [] = True"
| "HasPrefix [] (p # ps) = False"
| "HasPrefix (c # cs) (p # ps) = (c = p \<and> HasPrefix cs ps)"

text \<open>\<open>strings.Join\<close>.\<close>

fun Join :: "string list \<Rightarrow> string \<Rightarrow> string" where
  "Join [] sep = []"
| "Join [x] sep = x"
| "Join (x # y # ys) sep = x @ sep @ Join (y # ys) sep"

text \<open>
  \<open>strings.TrimSpace\<close> removes leading and trailing white space as defined by Unicode
  (\<open>unicode.IsSpace\<close>). The ASCII white space bytes are tab, line feed, vertical tab, form
  feed, carriage return and space. The other white space code points are U+0085, U+00A0
  (two bytes in UTF-8: C2 85, C2 A0), U+1680 (E1 9A 80), U+2000 to U+200A (E2 80 80 to
  E2 80 8A), U+2028, U+2029, U+202F (E2 80 A8, E2 80 A9, E2 80 AF), U+205F (E2 81 9F) and
  U+3000 (E3 80 80). Go decodes a rune only from its well-formed encoding, so matching
  these byte sequences at the two ends of the string is what the library does.
\<close>

definition asciiSpace :: "char \<Rightarrow> bool" where
  "asciiSpace c = (byte c = 9 \<or> byte c = 10 \<or> byte c = 11 \<or> byte c = 12 \<or> byte c = 13 \<or> byte c = 32)"

definition isSpace2 :: "char \<Rightarrow> char \<Rightarrow> bool" where
  "isSpace2 a b = (byte a = 0xC2 \<and> (byte b = 0x85 \<or> byte b = 0xA0))"

definition isSpace3 :: "char \<Rightarrow> char \<Rightarrow> char \<Rightarrow> bool" where
  "isSpace3 a b c =
     ((byte a = 0xE1 \<and> byte b = 0x9A \<and> byte c = 0x80)
    \<or> (byte a = 0xE2 \<and> byte b = 0x80 \<and>
         ((0x80 \<le> byte c \<and> byte c \<le> 0x8A) \<or> byte c = 0xA8 \<or> byte c = 0xA9 \<or> byte c = 0xAF))
    \<or> (byte a = 0xE2 \<and> byte b = 0x81 \<and> byte c = 0x9F)
    \<or> (byte a = 0xE3 \<and> byte b = 0x80 \<and> byte c = 0x80))"

fun TrimLeftSpace :: "string \<Rightarrow> string" where
  "TrimLeftSpace [] = []"
| "TrimLeftSpace [a] = (if asciiSpace a then [] else [a])"
| "TrimLeftSpace [a, b] =
     (if asciiSpace a then TrimLeftSpace [b]
      else if isSpace2 a b then []
      else [a, b])"
| "TrimLeftSpace (a # b # c # cs) =
     (if asciiSpace a then TrimLeftSpace (b # c # cs)
      else if isSpace2 a b then TrimLeftSpace (c # cs)
      else if isSpace3 a b c then TrimLeftSpace cs
      else a # b # c # cs)"

text \<open>The same scan from the end, on the reversed string (so the bytes of a rune come last
  byte first).\<close>

fun TrimRightSpaceRev :: "string \<Rightarrow> string" where
  "TrimRightSpaceRev [] = []"
| "TrimRightSpaceRev [a] = (if asciiSpace a then [] else [a])"
| "TrimRightSpaceRev [b, a] =
     (if asciiSpace b then TrimRightSpaceRev [a]
      else if isSpace2 a b then []
      else [b, a])"
| "TrimRightSpaceRev (c # b # a # cs) =
     (if asciiSpace c then TrimRightSpaceRev (b # a # cs)
      else if isSpace2 b c then TrimRightSpaceRev (a # cs)
      else if isSpace3 a b c then TrimRightSpaceRev cs
      else c # b # a # cs)"

definition TrimSpace :: "string \<Rightarrow> string" where
  "TrimSpace s = rev (TrimRightSpaceRev (rev (TrimLeftSpace s)))"

text \<open>
  \<open>strings.ToUpper\<close> and \<open>strings.ToLower\<close>. On a string of ASCII bytes Go maps the
  letters a to z and A to Z and keeps every other byte. A rune outside ASCII is mapped by
  the Unicode tables of the Go library, which are not part of this repository, and a byte
  that starts no well-formed UTF-8 sequence becomes U+FFFD there: the model keeps all
  bytes outside ASCII as they are, so it stands for the library on ASCII strings only, and
  nothing proved below for every input goes through these two functions.
\<close>

definition upperByte :: "char \<Rightarrow> char" where
  "upperByte c = (if 97 \<le> byte c \<and> byte c \<le> 122 then char_of (byte c - 32) else c)"

definition lowerByte :: "char \<Rightarrow> char" where
  "lowerByte c = (if 65 \<le> byte c \<and> byte c \<le> 90 then char_of (byte c + 32) else c)"

definition ToUpper :: "string \<Rightarrow> string" where
  "ToUpper s = map upperByte s"

definition ToLower :: "string \<Rightarrow> string" where
  "ToLower s = map lowerByte s"

section \<open>Package config\<close>

record Config =
  Separator :: string
  CaseTransform :: string
  Prefix :: string
  PrefixMode :: string
  RequiredVariables :: "string list"
  EnableTypeConversion :: bool
  EnableJSONParsing :: bool

definition DefaultConfig :: Config where
  "DefaultConfig =
     \<lparr> Separator = ''_'', CaseTransform = ''upper'', Prefix = '''', PrefixMode = ''prepend'',
       RequiredVariables = [], EnableTypeConversion = True, EnableJSONParsing = True \<rparr>"

text \<open>
  The errors of \<open>ValidateConfig\<close> are formatted messages; the model keeps which message it
  is and the value formatted into it.
\<close>

datatype config_error =
    InvalidCaseTransform string
  | InvalidPrefixMode string
  | SeparatorNotSingle string
  | RequiredVariableEmpty nat

text \<open>The loop over \<open>RequiredVariables\<close>: the index of the first entry that is empty after
  \<open>TrimSpace\<close>.\<close>

fun firstEmptyFrom :: "nat \<Rightarrow> string list \<Rightarrow> nat option" where
  "firstEmptyFrom i [] = None"
| "firstEmptyFrom i (v # vs) = (if TrimSpace v = [] then Some i else firstEmptyFrom (Suc i) vs)"

definition ValidateConfig :: "Config \<Rightarrow> config_error option" where
  "ValidateConfig c =
     (if CaseTransform c \<notin> set [''upper'', ''lower'', ''preserve'']
        then Some (InvalidCaseTransform (CaseTransform c))
      else if PrefixMode c \<notin> set [''prepend'', ''filter_only'']
        then Some (InvalidPrefixMode (PrefixMode c))
      else if length (Separator c) \<noteq> 1
        then Some (SeparatorNotSingle (Separator c))
      else (case firstEmptyFrom 0 (RequiredVariables c) of
              Some i \<Rightarrow> Some (RequiredVariableEmpty i)
            | None \<Rightarrow> None))"

section \<open>Package resolver\<close>

datatype resolver_error = ErrEmptyPath | ErrEmptySegment

record Resolver =
  separator :: string
  caseTransform :: string
  prefix :: string
  prefixMode :: string

definition NewResolver :: "string \<Rightarrow> string \<Rightarrow> string \<Rightarrow> string \<Rightarrow> Resolver" where
  "NewResolver sep ct pre pm =
     \<lparr> separator = sep, caseTransform = ct, prefix = pre, prefixMode = pm \<rparr>"

definition TransformSegment :: "string \<Rightarrow> string \<Rightarrow> string" where
  "TransformSegment segment ct =
     (if ct = ''upper'' then ToUpper segment
      else if ct = ''lower'' then ToLower segment
      else if ct = ''preserve'' then segment
      else segment)"

definition TransformSegments :: "string list \<Rightarrow> string \<Rightarrow> string list" where
  "TransformSegments segments ct =
     (if length segments = 0 then [] else map (\<lambda>segment. TransformSegment segment ct) segments)"

definition PrependPrefix :: "string \<Rightarrow> string \<Rightarrow> string" where
  "PrependPrefix varName pre = pre @ varName"

definition ApplyPrefix :: "string \<Rightarrow> string \<Rightarrow> string \<Rightarrow> string" where
  "ApplyPrefix varName pre mode =
     (if pre = [] then varName
      else if mode = ''prepend'' then PrependPrefix varName pre
      else if mode = ''filter_only'' then varName
      else varName)"

definition FilterByPrefix :: "string \<Rightarrow> string \<Rightarrow> bool" where
  "FilterByPrefix varName pre = (if pre = [] then True else HasPrefix varName pre)"

text \<open>The validation loop of \<open>Transform\<close> (and of the Fetch handler): the index of the first
  segment that is empty or only white space.\<close>

fun firstBlankFrom :: "nat \<Rightarrow> string list \<Rightarrow> nat option" where
  "firstBlankFrom i [] = None"
| "firstBlankFrom i (s # ss) = (if TrimSpace s = [] then Some i else firstBlankFrom (Suc i) ss)"

definition Transform :: "Resolver \<Rightarrow> string list \<Rightarrow> resolver_error + string" where
  "Transform r path =
     (if length path = 0 then Inl ErrEmptyPath
      else (case firstBlankFrom 0 path of
              Some i \<Rightarrow> Inl ErrEmptySegment
            | None \<Rightarrow>
                (let transformed = TransformSegments path (caseTransform r);
                     transformedName = Join transformed (separator r);
                     varName = ApplyPrefix transformedName (prefix r) (prefixMode r)
                 in Inr varName)))"

section \<open>Package fetcher\<close>

datatype fetcher_error = ErrNotFound | ErrValueTooLarge

definition MaxValueSize :: nat where
  "MaxValueSize = 1 * 1024 * 1024"

text \<open>
  The process environment is a parameter: \<open>env name\<close> is what \<open>os.LookupEnv name\<close> returns
  at the moment of the call (\<open>None\<close> when the variable is unset). The fetcher's only field
  is its cache, a \<open>sync.Map\<close> from names to values.
\<close>

type_synonym environ = "string \<rightharpoonup> string"

type_synonym Fetcher = "string \<rightharpoonup> string"

definition NewFetcher :: Fetcher where
  "NewFetcher = Map.empty"

definition Fetcher_Fetch :: "environ \<Rightarrow> Fetcher \<Rightarrow> string \<Rightarrow> (fetcher_error + string) \<times> Fetcher" where
  "Fetcher_Fetch env cache varName =
     (case cache varName of
        Some cached \<Rightarrow> (Inr cached, cache)
      | None \<Rightarrow>
          (case env varName of
             None \<Rightarrow> (Inl ErrNotFound, cache)
           | Some v \<Rightarrow>
               if length v > MaxValueSize then (Inl ErrValueTooLarge, cache)
               else (Inr v, cache(varName \<mapsto> v))))"

definition Fetcher_Clear :: "Fetcher \<Rightarrow> Fetcher" where
  "Fetcher_Clear cache = Map.empty"

section \<open>UTF-8\<close>

text \<open>
  The well-formed UTF-8 sequences, as \<open>unicode/utf8\<close> accepts them: no overlong forms, no
  surrogates, nothing above U+10FFFF.
\<close>

definition cont :: "char \<Rightarrow> bool" where
  "cont b = (0x80 \<le> byte b \<and> byte b \<le> 0xBF)"

definition seq2 :: "char \<Rightarrow> char \<Rightarrow> bool" where
  "seq2 a b = (0xC2 \<le> byte a \<and> byte a \<le> 0xDF \<and> cont b)"

definition seq3 :: "char \<Rightarrow> char \<Rightarrow> char \<Rightarrow> bool" where
  "seq3 a b c =
     (((byte a = 0xE0 \<and> 0xA0 \<le> byte b \<and> byte b \<le> 0xBF)
       \<or> (0xE1 \<le> byte a \<and> byte a \<le> 0xEC \<and> cont b)
       \<or> (byte a = 0xED \<and> 0x80 \<le> byte b \<and> byte b \<le> 0x9F)
       \<or> (0xEE \<le> byte a \<and> byte a \<le> 0xEF \<and> cont b)) \<and> cont c)"

definition seq4 :: "char \<Rightarrow> char \<Rightarrow> char \<Rightarrow> char \<Rightarrow> bool" where
  "seq4 a b c d =
     (((byte a = 0xF0 \<and> 0x90 \<le> byte b \<and> byte b \<le> 0xBF)
       \<or> (0xF1 \<le> byte a \<and> byte a \<le> 0xF3 \<and> cont b)
       \<or> (byte a = 0xF4 \<and> 0x80 \<le> byte b \<and> byte b \<le> 0x8F)) \<and> cont c \<and> cont d)"

text \<open>\<open>utf8.ValidString\<close>.\<close>

fun ValidString :: "string \<Rightarrow> bool" where
  "ValidString [] = True"
| "ValidString (a # s) =
     (if byte a < 0x80 then ValidString s
      else (case s of [] \<Rightarrow> False
            | b # s1 \<Rightarrow>
                if seq2 a b then ValidString s1
                else (case s1 of [] \<Rightarrow> False
                      | c # s2 \<Rightarrow>
                          if seq3 a b c then ValidString s2
                          else (case s2 of [] \<Rightarrow> False
                                | d # s3 \<Rightarrow> if seq4 a b c d then ValidString s3 else False))))"

text \<open>U+FFFD, which Go's decoders put in place of each byte that starts no well-formed
  sequence.\<close>

definition replacementChar :: string where
  "replacementChar = [char_of (0xEF::nat), char_of (0xBF::nat), char_of (0xBD::nat)]"

fun replaceInvalid :: "string \<Rightarrow> string" where
  "replaceInvalid [] = []"
| "replaceInvalid (a # s) =
     (if byte a < 0x80 then a # replaceInvalid s
      else (case s of [] \<Rightarrow> replacementChar
            | b # s1 \<Rightarrow>
                if seq2 a b then a # b # replaceInvalid s1
                else (case s1 of [] \<Rightarrow> replacementChar @ replaceInvalid s
                      | c # s2 \<Rightarrow>
                          if seq3 a b c then a # b # c # replaceInvalid s2
                          else (case s2 of [] \<Rightarrow> replacementChar @ replaceInvalid s
                                | d # s3 \<Rightarrow>
                                    if seq4 a b c d then a # b # c # d # replaceInvalid s3
                                    else replacementChar @ replaceInvalid s))))"

text \<open>\<open>utf8.EncodeRune\<close> for a code point that is not a surrogate.\<close>

definition encodeRune :: "nat \<Rightarrow> string" where
  "encodeRune n =
     (if n < 0x80 then [char_of n]
      else if n < 0x800 then [char_of (0xC0 + n div 64), char_of (0x80 + n mod 64)]
      else if n < 0x10000 then
        [char_of (0xE0 + n div 4096), char_of (0x80 + (n div 64) mod 64), char_of (0x80 + n mod 64)]
      else
        [char_of (0xF0 + n div 262144), char_of (0x80 + (n div 4096) mod 64),
         char_of (0x80 + (n div 64) mod 64), char_of (0x80 + n mod 64)])"

section \<open>Go values\<close>

text \<open>
  A \<open>float64\<close> is kept as the exact rational it was parsed from: \<open>Finite r\<close> stands for the
  \<open>float64\<close> nearest to \<open>r\<close> (for an integer such as 42 or 8080, that integer). Rounding is
  not modelled.
\<close>

datatype float64 = Finite rat | PosInf | NegInf | NaN

text \<open>
  The dynamic values an \<open>interface{}\<close> holds in this program: a string, a \<open>float64\<close>, a
  \<open>bool\<close>, \<open>nil\<close>, a \<open>[]interface{}\<close> and a \<open>map[string]interface{}\<close>. A map is kept as
  a list of entries with distinct keys; Go ranges over a map in no fixed order, and the list
  order stands for one such order.
\<close>

datatype go_value =
    VNil
  | VBool bool
  | VFloat float64
  | VString string
  | VSlice "go_value list"
  | VMap "(string \<times> go_value) list"

section \<open>Library functions of the converter\<close>

definition isDigit :: "char \<Rightarrow> bool" where
  "isDigit c = (48 \<le> byte c \<and> byte c \<le> 57)"

fun decimalValue :: "nat \<Rightarrow> string \<Rightarrow> nat" where
  "decimalValue acc [] = acc"
| "decimalValue acc (c # cs) = decimalValue (acc * 10 + (byte c - 48)) cs"

text \<open>The exponent of a float literal: Go stops accumulating once the value reached 10000.\<close>

fun exponentValue :: "nat \<Rightarrow> string \<Rightarrow> nat" where
  "exponentValue e [] = e"
| "exponentValue e (c # cs) = exponentValue (if e < 10000 then e * 10 + (byte c - 48) else e) cs"

definition splitSign :: "string \<Rightarrow> bool \<times> string" where
  "splitSign s =
     (case s of [] \<Rightarrow> (False, [])
      | c # cs \<Rightarrow> if c = CHR ''+'' then (False, cs) else if c = CHR ''-'' then (True, cs) else (False, s))"

text \<open>
  The value \<open>m * 10 ^ e\<close> of a literal, or the range error of \<open>strconv.ParseFloat\<close>: a value
  that rounds to infinity, that is one of magnitude at least \<open>2 ^ 1024 - 2 ^ 970\<close>.
\<close>

definition scaleDecimal :: "bool \<Rightarrow> nat \<Rightarrow> int \<Rightarrow> float64 option" where
  "scaleDecimal neg m e =
     (let r = (if e \<ge> 0 then of_nat m * 10 ^ nat e else of_nat m / 10 ^ nat (- e)) :: rat
      in if r \<ge> 2 ^ 1024 - 2 ^ 970 then None
         else Some (Finite (if neg then - r else r)))"

text \<open>
  \<open>strconv.ParseFloat(s, 64)\<close> with its error turned into \<open>None\<close>, for the decimal
  literals \<open>[+-] digits [. digits] [(e|E) [+-] digits]\<close> (at least one digit before the
  exponent) and for the special values \<open>inf\<close>, \<open>infinity\<close> (with an optional sign) and
  \<open>nan\<close>, in any letter case. Go also reads hexadecimal literals (\<open>0x1p-2\<close>) and literals
  with digit-separating underscores; they are outside this model, which rejects them, and
  nothing proved below for every input depends on which strings \<open>ParseFloat\<close> accepts.
\<close>

definition ParseDecimal :: "string \<Rightarrow> float64 option" where
  "ParseDecimal s =
     (let (neg, r0) = splitSign s;
          ip = takeWhile isDigit r0;
          r1 = dropWhile isDigit r0;
          (fp, r2) = (case r1 of [] \<Rightarrow> ([], [])
                      | c # r \<Rightarrow> if c = CHR ''.'' then (takeWhile isDigit r, dropWhile isDigit r)
                                else ([], r1))
      in if ip = [] \<and> fp = [] then None
         else (case r2 of
                 [] \<Rightarrow> scaleDecimal neg (decimalValue 0 (ip @ fp)) (- int (length fp))
               | c # r3 \<Rightarrow>
                   if c = CHR ''e'' \<or> c = CHR ''E'' then
                     (let (eneg, r4) = splitSign r3
                      in if r4 = [] \<or> \<not> list_all isDigit r4 then None
                         else scaleDecimal neg (decimalValue 0 (ip @ fp))
                                ((if eneg then - int (exponentValue 0 r4) else int (exponentValue 0 r4))
                                 - int (length fp)))
                   else None))"

definition ParseFloat :: "string \<Rightarrow> float64 option" where
  "ParseFloat s =
     (let l = ToLower s
      in if l = ''inf'' \<or> l = ''+inf'' \<or> l = ''infinity'' \<or> l = ''+infinity'' then Some PosInf
         else if l = ''-inf'' \<or> l = ''-infinity'' then Some NegInf
         else if l = ''nan'' then Some NaN
         else ParseDecimal s)"

text \<open>
  \<open>json.Unmarshal\<close> into an empty \<open>interface{}\<close>. The decoder accepts exactly the
  grammar of RFC 8259, with at most 10000 open arrays and objects at a time. A number
  becomes a \<open>float64\<close> through \<open>strconv.ParseFloat\<close> (a number out of range is an error), a
  string is unquoted, an object becomes a map (of a repeated key the last value stays) and
  an array a slice. The error value (a syntax error with its offset) is not modelled: the
  result is \<open>None\<close> for every error.
\<close>

definition jsonSpace :: "char \<Rightarrow> bool" where
  "jsonSpace c = (c = CHR '' '' \<or> byte c = 9 \<or> byte c = 10 \<or> byte c = 13)"

definition skipSpace :: "string \<Rightarrow> string" where
  "skipSpace s = dropWhile jsonSpace s"

definition hexVal :: "char \<Rightarrow> nat option" where
  "hexVal c =
     (if 48 \<le> byte c \<and> byte c \<le> 57 then Some (byte c - 48)
      else if 97 \<le> byte c \<and> byte c \<le> 102 then Some (byte c - 87)
      else if 65 \<le> byte c \<and> byte c \<le> 70 then Some (byte c - 55)
      else None)"

text \<open>The four hexadecimal digits of a \<open>\u\<close> escape (\<open>getu4\<close>, after the \<open>\u\<close>).\<close>

definition getu4 :: "string \<Rightarrow> (nat \<times> string) option" where
  "getu4 s =
     (case s of
        a # b # c # d # r \<Rightarrow>
          (case (hexVal a, hexVal b, hexVal c, hexVal d) of
             (Some x, Some y, Some z, Some w) \<Rightarrow> Some (((x * 16 + y) * 16 + z) * 16 + w, r)
           | _ \<Rightarrow> None)
      | _ \<Rightarrow> None)"

definition isSurrogate :: "nat \<Rightarrow> bool" where
  "isSurrogate n = (0xD800 \<le> n \<and> n < 0xE000)"

text \<open>The character a one-letter escape stands for.\<close>

definition simpleEscape :: "char \<Rightarrow> char option" where
  "simpleEscape e =
     (if e = CHR 0x22 then Some (CHR 0x22)
      else if e = CHR 0x5C then Some (CHR 0x5C)
      else if e = CHR ''/'' then Some (CHR ''/'')
      else if e = CHR ''b'' then Some (CHR 0x08)
      else if e = CHR ''f'' then Some (CHR 0x0C)
      else if e = CHR ''n'' then Some (CHR 0x0A)
      else if e = CHR ''r'' then Some (CHR 0x0D)
      else if e = CHR ''t'' then Some (CHR 0x09)
      else None)"

text \<open>
  A string token after its opening quote: the text up to the closing quote with the
  escapes replaced, and the input after the closing quote. A control character or an
  unknown escape is a syntax error. A \<open>\u\<close> escape of a surrogate is combined with a
  following \<open>\u\<close> escape of a low surrogate, and becomes U+FFFD otherwise.
\<close>

fun scanString :: "string \<Rightarrow> string \<Rightarrow> (string \<times> string) option" where
  "scanString [] acc = None"
| "scanString (c # cs) acc =
     (if c = CHR 0x22 then Some (acc, cs)
      else if c = CHR 0x5C then
        (case cs of
           [] \<Rightarrow> None
         | e # r \<Rightarrow>
             if e = CHR ''u'' then
               (case r of
                  h1 # h2 # h3 # h4 # r1 \<Rightarrow>
                    (case getu4 [h1, h2, h3, h4] of
                       None \<Rightarrow> None
                     | Some (rr, _) \<Rightarrow>
                         if isSurrogate rr then
                           (case r1 of
                              b1 # u1 # g1 # g2 # g3 # g4 # r2 \<Rightarrow>
                                (case (if b1 = CHR 0x5C \<and> u1 = CHR ''u'' then getu4 [g1, g2, g3, g4] else None) of
                                   Some (rr1, _) \<Rightarrow>
                                     if rr < 0xDC00 \<and> 0xDC00 \<le> rr1 \<and> rr1 < 0xE000 then
                                       scanString r2
                                         (acc @ encodeRune ((rr - 0xD800) * 1024 + (rr1 - 0xDC00) + 0x10000))
                                     else scanString r1 (acc @ replacementChar)
                                 | None \<Rightarrow> scanString r1 (acc @ replacementChar))
                            | _ \<Rightarrow> scanString r1 (acc @ replacementChar))
                         else scanString r1 (acc @ encodeRune rr))
                | _ \<Rightarrow> None)
             else (case simpleEscape e of
                     None \<Rightarrow> None
                   | Some x \<Rightarrow> scanString r (acc @ [x])))
      else if byte c < 0x20 then None
      else scanString cs (acc @ [c]))"

text \<open>The bytes of the token that are not well-formed UTF-8 become U+FFFD.\<close>

definition unquote :: "string \<Rightarrow> (string \<times> string) option" where
  "unquote s = (case scanString s [] of None \<Rightarrow> None | Some (t, r) \<Rightarrow> Some (replaceInvalid t, r))"

text \<open>
  A number token: \<open>[-] (0 | 1-9 digits) [. digits] [(e|E) [+-] digits]\<close>, the longest such
  prefix of the input. The result is the token and the input after it.
\<close>

definition scanNumber :: "string \<Rightarrow> (string \<times> string) option" where
  "scanNumber s =
     (let (sgn, r0) = (case s of [] \<Rightarrow> ([], [])
                       | c # cs \<Rightarrow> if c = CHR ''-'' then ([c], cs) else ([], s));
          ip = (case r0 of [] \<Rightarrow> []
                | c # cs \<Rightarrow> if c = CHR ''0'' then [c] else takeWhile isDigit r0);
          r1 = drop (length ip) r0
      in if ip = [] then None
         else
           (let fr = (case r1 of [] \<Rightarrow> Some []
                      | c # cs \<Rightarrow>
                          if c = CHR ''.'' then
                            (if takeWhile isDigit cs = [] then None else Some (c # takeWhile isDigit cs))
                          else Some [])
            in case fr of
                 None \<Rightarrow> None
               | Some fp \<Rightarrow>
                   (let r2 = drop (length fp) r1;
                        ex = (case r2 of [] \<Rightarrow> Some []
                              | c # cs \<Rightarrow>
                                  if c = CHR ''e'' \<or> c = CHR ''E'' then
                                    (let sg = (case cs of [] \<Rightarrow> []
                                               | x # xs \<Rightarrow> if x = CHR ''+'' \<or> x = CHR ''-'' then [x] else []);
                                         ds = takeWhile isDigit (drop (length sg) cs)
                                     in if ds = [] then None else Some (c # sg @ ds))
                                  else Some [])
                    in case ex of
                         None \<Rightarrow> None
                       | Some ep \<Rightarrow> Some (sgn @ ip @ fp @ ep, drop (length ep) r2))))"

definition maxNestingDepth :: nat where
  "maxNestingDepth = 10000"

text \<open>\<open>m[k] = v\<close> on the entry list of a map.\<close>

fun setKey :: "(string \<times> go_value) list \<Rightarrow> string \<Rightarrow> go_value \<Rightarrow> (string \<times> go_value) list" where
  "setKey [] k v = [(k, v)]"
| "setKey ((k', v') # kvs) k v = (if k' = k then (k, v) # kvs else (k', v') # setKey kvs k v)"

text \<open>
  The recursive descent. The first argument bounds the number of nested calls (each call
  passes one less to the calls it makes); the second is the number of arrays and objects
  open around the value. \<open>parseElements\<close> reads the elements of an array after its first
  element's position is reached, \<open>parseMembers\<close> the members of an object.
\<close>

fun parseValue :: "nat \<Rightarrow> nat \<Rightarrow> string \<Rightarrow> (go_value \<times> string) option"
  and parseElements :: "nat \<Rightarrow> nat \<Rightarrow> string \<Rightarrow> go_value list \<Rightarrow> (go_value \<times> string) option"
  and parseMembers :: "nat \<Rightarrow> nat \<Rightarrow> string \<Rightarrow> (string \<times> go_value) list \<Rightarrow> (go_value \<times> string) option"
where
  "parseValue 0 d s = None"
| "parseValue (Suc n) d s =
     (case skipSpace s of
        [] \<Rightarrow> None
      | c # cs \<Rightarrow>
          if c = CHR ''['' then
            (if d + 1 > maxNestingDepth then None
             else (case skipSpace cs of
                     [] \<Rightarrow> None
                   | x # r \<Rightarrow> if x = CHR '']'' then Some (VSlice [], r) else parseElements n (d + 1) cs []))
          else if c = CHR ''{'' then
            (if d + 1 > maxNestingDepth then None
             else (case skipSpace cs of
                     [] \<Rightarrow> None
                   | x # r \<Rightarrow> if x = CHR ''}'' then Some (VMap [], r) else parseMembers n (d + 1) cs []))
          else if c = CHR 0x22 then
            (case unquote cs of None \<Rightarrow> None | Some (t, r) \<Rightarrow> Some (VString t, r))
          else if HasPrefix (c # cs) ''true'' then Some (VBool True, drop 4 (c # cs))
          else if HasPrefix (c # cs) ''false'' then Some (VBool False, drop 5 (c # cs))
          else if HasPrefix (c # cs) ''null'' then Some (VNil, drop 4 (c # cs))
          else (case scanNumber (c # cs) of
                  None \<Rightarrow> None
                | Some (t, r) \<Rightarrow> (case ParseFloat t of None \<Rightarrow> None | Some f \<Rightarrow> Some (VFloat f, r))))"
| "parseElements 0 d s acc = None"
| "parseElements (Suc n) d s acc =
     (case parseValue n d s of
        None \<Rightarrow> None
      | Some (v, r) \<Rightarrow>
          (case skipSpace r of
             [] \<Rightarrow> None
           | x # r' \<Rightarrow>
               if x = CHR '','' then parseElements n d r' (acc @ [v])
               else if x = CHR '']'' then Some (VSlice (acc @ [v]), r')
               else None))"
| "parseMembers 0 d s acc = None"
| "parseMembers (Suc n) d s acc =
     (case skipSpace s of
        [] \<Rightarrow> None
      | q # r \<Rightarrow>
          if q \<noteq> CHR 0x22 then None
          else (case unquote r of
                  None \<Rightarrow> None
                | Some (k, r1) \<Rightarrow>
                    (case skipSpace r1 of
                       [] \<Rightarrow> None
                     | col # r2 \<Rightarrow>
                         if col \<noteq> CHR '':'' then None
                         else (case parseValue n d r2 of
                                 None \<Rightarrow> None
                               | Some (v, r3) \<Rightarrow>
                                   (case skipSpace r3 of
                                      [] \<Rightarrow> None
                                    | x # r4 \<Rightarrow>
                                        if x = CHR '','' then parseMembers n d r4 (setKey acc k v)
                                        else if x = CHR ''}'' then Some (VMap (setKey acc k v), r4)
                                        else None)))))"

text \<open>The whole input is one value between optional white space. Twice the length of the
  input, and two more, bounds the calls the descent nests on it.\<close>

definition Unmarshal :: "string \<Rightarrow> go_value option" where
  "Unmarshal s =
     (case parseValue (2 * length s + 2) 0 s of
        None \<Rightarrow> None
      | Some (v, r) \<Rightarrow> if skipSpace r = [] then Some v else None)"

section \<open>Package converter\<close>

datatype converter_error = ErrValueTooLargeConv | ErrInvalidJSON | ErrJSONTooDeep

definition MaxValueSizeConv :: nat where
  "MaxValueSizeConv = 1 * 1024 * 1024"

definition MaxJSONDepth :: nat where
  "MaxJSONDepth = 100"

text \<open>\<open>validateDepth\<close>, with its two loops over the values of a map and over the elements
  of a slice.\<close>

fun validateDepth :: "go_value \<Rightarrow> nat \<Rightarrow> converter_error option"
  and validateDepthMap :: "(string \<times> go_value) list \<Rightarrow> nat \<Rightarrow> converter_error option"
  and validateDepthSlice :: "go_value list \<Rightarrow> nat \<Rightarrow> converter_error option"
where
  "validateDepth v depth =
     (if depth > MaxJSONDepth then Some ErrJSONTooDeep
      else (case v of
              VMap kvs \<Rightarrow> validateDepthMap kvs (depth + 1)
            | VSlice vs \<Rightarrow> validateDepthSlice vs (depth + 1)
            | _ \<Rightarrow> None))"
| "validateDepthMap [] depth = None"
| "validateDepthMap (kv # kvs) depth =
     (case validateDepth (snd kv) depth of
        Some err \<Rightarrow> Some err
      | None \<Rightarrow> validateDepthMap kvs depth)"
| "validateDepthSlice [] depth = None"
| "validateDepthSlice (val # vs) depth =
     (case validateDepth val depth of
        Some err \<Rightarrow> Some err
      | None \<Rightarrow> validateDepthSlice vs depth)"

definition TryJSON :: "string \<Rightarrow> converter_error + go_value" where
  "TryJSON v =
     (case Unmarshal v of
        None \<Rightarrow> Inl ErrInvalidJSON
      | Some result \<Rightarrow>
          (case validateDepth result 0 of
             Some err \<Rightarrow> Inl err
           | None \<Rightarrow> Inr result))"

definition TryNumeric :: "string \<Rightarrow> float64 option" where
  "TryNumeric v = ParseFloat v"

definition TryBoolean :: "string \<Rightarrow> bool option" where
  "TryBoolean v =
     (let lower = ToLower (TrimSpace v)
      in if lower = ''true'' \<or> lower = ''yes'' then Some True
         else if lower = ''false'' \<or> lower = ''no'' then Some False
         else None)"

definition isSlice :: "go_value \<Rightarrow> bool" where
  "isSlice v = (case v of VSlice vs \<Rightarrow> True | _ \<Rightarrow> False)"

text \<open>\<open>ConvertValue\<close> returns the converted value with the name of its type, or an error.\<close>

definition ConvertValue :: "string \<Rightarrow> bool \<Rightarrow> bool \<Rightarrow> converter_error + (go_value \<times> string)" where
  "ConvertValue v enableTypeConversion enableJSONParsing =
     (if length v > MaxValueSizeConv then Inl ErrValueTooLargeConv
      else if v = [] then Inr (VString v, ''string'')
      else
        (let trimmed = TrimSpace v
         in if enableJSONParsing \<and> (HasPrefix trimmed ''{'' \<or> HasPrefix trimmed ''['') then
              (case TryJSON v of
                 Inl err \<Rightarrow> Inl err
               | Inr result \<Rightarrow> Inr (result, if isSlice result then ''array'' else ''object''))
            else if \<not> enableTypeConversion then Inr (VString v, ''string'')
            else (case TryNumeric v of
                    Some num \<Rightarrow> Inr (VFloat num, ''number'')
                  | None \<Rightarrow>
                      (case TryBoolean v of
                         Some b \<Rightarrow> Inr (VBool b, ''boolean'')
                       | None \<Rightarrow> Inr (VString v, ''string'')))))"

section \<open>Package config: parsing\<close>

text \<open>
  A \<open>structpb.Value\<close> has the six kinds of \<^typ>\<open>go_value\<close>, and a \<open>structpb.Struct\<close> is a
  map of fields; a \<open>nil\<close> struct is \<open>None\<close>.
\<close>

type_synonym pb_struct = "(string \<times> go_value) list"

definition getString :: "pb_struct option \<Rightarrow> string \<Rightarrow> string \<Rightarrow> string" where
  "getString m key defaultVal =
     (case m of
        None \<Rightarrow> defaultVal
      | Some flds \<Rightarrow>
          (case map_of flds key of
             Some (VString strVal) \<Rightarrow> strVal
           | _ \<Rightarrow> defaultVal))"

definition getBool :: "pb_struct option \<Rightarrow> string \<Rightarrow> bool \<Rightarrow> bool" where
  "getBool m key defaultVal =
     (case m of
        None \<Rightarrow> defaultVal
      | Some flds \<Rightarrow>
          (case map_of flds key of
             Some (VBool boolVal) \<Rightarrow> boolVal
           | _ \<Rightarrow> defaultVal))"

fun stringItems :: "go_value list \<Rightarrow> string list" where
  "stringItems [] = []"
| "stringItems (item # items) =
     (case item of VString strVal \<Rightarrow> strVal # stringItems items | _ \<Rightarrow> stringItems items)"

definition getStringList :: "pb_struct option \<Rightarrow> string \<Rightarrow> string list option" where
  "getStringList m key =
     (case m of
        None \<Rightarrow> None
      | Some flds \<Rightarrow>
          (case map_of flds key of
             Some (VSlice values) \<Rightarrow> Some (stringItems values)
           | _ \<Rightarrow> None))"

text \<open>\<open>ParseConfig\<close>; the error it returns is always \<open>nil\<close>.\<close>

definition ParseConfig :: "pb_struct option \<Rightarrow> Config" where
  "ParseConfig pbConfig =
     (let cfg = DefaultConfig
      in case pbConfig of
           None \<Rightarrow> cfg
         | Some flds \<Rightarrow>
             \<lparr> Separator = getString pbConfig ''separator'' (Separator cfg),
               CaseTransform = getString pbConfig ''case_transform'' (CaseTransform cfg),
               Prefix = getString pbConfig ''prefix'' (Prefix cfg),
               PrefixMode = getString pbConfig ''prefix_mode'' (PrefixMode cfg),
               RequiredVariables =
                 (case getStringList pbConfig ''required_variables'' of
                    Some requiredVars \<Rightarrow> requiredVars
                  | None \<Rightarrow> RequiredVariables cfg),
               EnableTypeConversion = getBool pbConfig ''enable_type_conversion'' (EnableTypeConversion cfg),
               EnableJSONParsing = getBool pbConfig ''enable_json_parsing'' (EnableJSONParsing cfg) \<rparr>)"

section \<open>Package provider\<close>

datatype State = StateUninitialized | StateInitializing | StateReady | StateShuttingDown | StateStopped

text \<open>
  The provider. Its pointer fields are \<open>None\<close> while they are \<open>nil\<close>. The logger writes to
  the log only and is left out; the mutex plays no role in a single call.
\<close>

record Provider =
  alias' :: string
  config :: "Config option"
  fetcher :: "Fetcher option"
  resolver :: "Resolver option"
  state :: State

definition New :: Provider where
  "New = \<lparr> alias' = [], config = None, fetcher = None, resolver = None, state = StateUninitialized \<rparr>"

definition GetState :: "Provider \<Rightarrow> State" where
  "GetState p = state p"

definition setState :: "Provider \<Rightarrow> State \<Rightarrow> Provider" where
  "setState p st = p\<lparr>state := st\<rparr>"

text \<open>
  A gRPC status is a code and a formatted message; the model keeps which message it is and
  the values formatted into it. Dereferencing a \<open>nil\<close> field panics.
\<close>

datatype code = InvalidArgument | FailedPrecondition | NotFound | Internal

datatype message =
    ProviderNotInitialized
  | PathCannotBeEmpty
  | PathSegmentEmpty nat
  | PathTransformationFailed resolver_error
  | VariableNotFound string
  | ValueExceedsMaximumSize nat
  | TypeConversionFailed converter_error
  | StructCreationFailed
  | ConfigValidationFailed config_error
  | RequiredVariablesMissing "string list"

datatype rpc_error = Status code message | NilPointerPanic

record InitRequest =
  Alias :: string
  ConfigStruct :: "pb_struct option"

definition Init :: "environ \<Rightarrow> Provider \<Rightarrow> InitRequest \<Rightarrow> (rpc_error + unit) \<times> Provider" where
  "Init env p req =
     (let p1 = setState p StateInitializing;
          cfg = ParseConfig (ConfigStruct req)
      in case ValidateConfig cfg of
           Some err \<Rightarrow>
             (Inl (Status InvalidArgument (ConfigValidationFailed err)), setState p1 StateUninitialized)
         | None \<Rightarrow>
             (let missing = filter (\<lambda>varName. env varName = None) (RequiredVariables cfg)
              in if length (RequiredVariables cfg) > 0 \<and> length missing > 0 then
                   (Inl (Status InvalidArgument (RequiredVariablesMissing missing)),
                    setState p1 StateUninitialized)
                 else
                   (let p2 = p1\<lparr>config := Some cfg, alias' := Alias req\<rparr>;
                        p3 = (case fetcher p2 of None \<Rightarrow> p2\<lparr>fetcher := Some NewFetcher\<rparr> | Some f \<Rightarrow> p2);
                        p4 = p3\<lparr>resolver :=
                               Some (NewResolver (Separator cfg) (CaseTransform cfg) (Prefix cfg) (PrefixMode cfg))\<rparr>
                    in (Inr (), setState p4 StateReady))))"

text \<open>\<open>convertValue\<close> of the provider drops the type name.\<close>

definition convertValue :: "Config \<Rightarrow> string \<Rightarrow> converter_error + go_value" where
  "convertValue cfg v =
     (case ConvertValue v (EnableTypeConversion cfg) (EnableJSONParsing cfg) of
        Inl err \<Rightarrow> Inl err
      | Inr (converted, typeStr) \<Rightarrow> Inr converted)"

text \<open>
  \<open>toProtoValue\<close> copies a value; its \<open>unsupported type\<close> branch is for dynamic types
  that \<^typ>\<open>go_value\<close> does not have, so it returns no error here.
\<close>

fun toProtoValue :: "go_value \<Rightarrow> go_value"
  and convertMapToProto :: "(string \<times> go_value) list \<Rightarrow> (string \<times> go_value) list"
  and convertArrayToProto :: "go_value list \<Rightarrow> go_value list"
where
  "toProtoValue (VMap m) = VMap (convertMapToProto m)"
| "toProtoValue (VSlice arr) = VSlice (convertArrayToProto arr)"
| "toProtoValue (VString v) = VString v"
| "toProtoValue (VFloat v) = VFloat v"
| "toProtoValue (VBool v) = VBool v"
| "toProtoValue VNil = VNil"
| "convertMapToProto [] = []"
| "convertMapToProto (kv # m) = (fst kv, toProtoValue (snd kv)) # convertMapToProto m"
| "convertArrayToProto [] = []"
| "convertArrayToProto (v # arr) = toProtoValue v # convertArrayToProto arr"

text \<open>\<open>structpb.NewStruct\<close> fails on a string or a key that is not valid UTF-8, and on
  nothing else that a \<^typ>\<open>go_value\<close> can hold.\<close>

fun validProto :: "go_value \<Rightarrow> bool"
  and validProtoMap :: "(string \<times> go_value) list \<Rightarrow> bool"
  and validProtoList :: "go_value list \<Rightarrow> bool"
where
  "validProto (VString v) = ValidString v"
| "validProto (VMap m) = validProtoMap m"
| "validProto (VSlice arr) = validProtoList arr"
| "validProto (VFloat v) = True"
| "validProto (VBool v) = True"
| "validProto VNil = True"
| "validProtoMap [] = True"
| "validProtoMap (kv # m) = (ValidString (fst kv) \<and> validProto (snd kv) \<and> validProtoMap m)"
| "validProtoList [] = True"
| "validProtoList (v # arr) = (validProto v \<and> validProtoList arr)"

text \<open>
  \<open>Fetch\<close>. The response is the value stored under the field \<open>value\<close> of the response
  struct. The fetcher returns only its two errors, so the handler's branch for any other
  fetch error is never taken.
\<close>

definition Fetch :: "environ \<Rightarrow> Provider \<Rightarrow> string list \<Rightarrow> (rpc_error + go_value) \<times> Provider" where
  "Fetch env p path =
     (if GetState p \<noteq> StateReady then (Inl (Status FailedPrecondition ProviderNotInitialized), p)
      else if length path = 0 then (Inl (Status InvalidArgument PathCannotBeEmpty), p)
      else
        (case firstBlankFrom 0 path of
           Some i \<Rightarrow> (Inl (Status InvalidArgument (PathSegmentEmpty i)), p)
         | None \<Rightarrow>
             (case (if length path = 1 then Inr (Inr (hd path))
                    else (case resolver p of
                            None \<Rightarrow> Inl NilPointerPanic
                          | Some r \<Rightarrow> Inr (Transform r path))) of
                Inl panic \<Rightarrow> (Inl panic, p)
              | Inr (Inl err) \<Rightarrow> (Inl (Status InvalidArgument (PathTransformationFailed err)), p)
              | Inr (Inr varName) \<Rightarrow>
                  (case config p of
                     None \<Rightarrow> (Inl NilPointerPanic, p)
                   | Some cfg \<Rightarrow>
                       if PrefixMode cfg = ''filter_only'' \<and> Prefix cfg \<noteq> []
                          \<and> \<not> FilterByPrefix varName (Prefix cfg)
                       then (Inl (Status NotFound (VariableNotFound varName)), p)
                       else
                         (case fetcher p of
                            None \<Rightarrow> (Inl NilPointerPanic, p)
                          | Some cache \<Rightarrow>
                              (case Fetcher_Fetch env cache varName of
                                 (Inl ErrNotFound, cache') \<Rightarrow>
                                   (Inl (Status NotFound (VariableNotFound varName)), p\<lparr>fetcher := Some cache'\<rparr>)
                               | (Inl ErrValueTooLarge, cache') \<Rightarrow>
                                   (Inl (Status InvalidArgument (ValueExceedsMaximumSize MaxValueSize)),
                                    p\<lparr>fetcher := Some cache'\<rparr>)
                               | (Inr v, cache') \<Rightarrow>
                                   (let p' = p\<lparr>fetcher := Some cache'\<rparr>
                                    in case (if EnableTypeConversion cfg \<or> EnableJSONParsing cfg
                                             then convertValue cfg v else Inr (VString v)) of
                                         Inl err \<Rightarrow>
                                           (Inl (Status InvalidArgument (TypeConversionFailed err)), p')
                                       | Inr convertedValue \<Rightarrow>
                                           (let protoValue = toProtoValue convertedValue
                                            in if validProto protoValue then (Inr protoValue, p')
                                               else (Inl (Status Internal StructCreationFailed), p')))))))))"

definition Shutdown :: "Provider \<Rightarrow> Provider" where
  "Shutdown p =
     (let p1 = setState p StateShuttingDown;
          p2 = (case fetcher p1 of None \<Rightarrow> p1 | Some cache \<Rightarrow> p1\<lparr>fetcher := Some (Fetcher_Clear cache)\<rparr>)
      in setState p2 StateStopped)"

section \<open>Runs of calls\<close>

text \<open>
  The cache after a run of \<open>Fetch\<close> calls on the same fetcher, each call with the
  environment of its moment and the name it asks for.
\<close>

fun FetchSeq :: "Fetcher \<Rightarrow> (environ \<times> string) list \<Rightarrow> Fetcher" where
  "FetchSeq cache [] = cache"
| "FetchSeq cache (call # calls) = FetchSeq (snd (Fetcher_Fetch (fst call) cache (snd call))) calls"

section \<open>Nesting depth\<close>








section \<open>The variable store\<close>

lemma Fetcher_Fetch_keeps:
  "cache name = Some v \<Longrightarrow> snd (Fetcher_Fetch env cache n) name = Some v"
  by (auto simp: Fetcher_Fetch_def split: option.splits)

lemma FetchSeq_keeps:
  "cache name = Some v \<Longrightarrow> FetchSeq cache calls name = Some v"
proof (induction calls arbitrary: cache)
  case Nil
  then show ?case by simp
next
  case (Cons call calls)
  have "snd (Fetcher_Fetch (fst call) cache (snd call)) name = Some v"
    using Cons.prems by (rule Fetcher_Fetch_keeps)
  then show ?case using Cons.IH by simp
qed

lemma Fetcher_Fetch_stores:
  "Fetcher_Fetch env cache name = (Inr v, cache') \<Longrightarrow> cache' name = Some v"
  by (auto simp: Fetcher_Fetch_def split: option.splits if_splits)

lemma Fetcher_Fetch_hit:
  "cache name = Some v \<Longrightarrow> Fetcher_Fetch env cache name = (Inr v, cache)"
  by (simp add: Fetcher_Fetch_def)

text \<open>
  C4. Once \<open>Fetch name\<close> has succeeded with the value \<open>v\<close>, a later \<open>Fetch name\<close> on the
  same fetcher returns \<open>v\<close> again and leaves the cache as it is, after any run of other
  calls and whatever the environment holds by then (the variable changed or unset): the
  value comes from the cache. A \<open>Fetch\<close> that fails because the value is too large leaves
  the cache unchanged.
\<close>

theorem fetch_cached_for_lifetime:
  "(Fetcher_Fetch env cache name = (Inr v, cache') \<longrightarrow>
      (\<forall>calls env'. Fetcher_Fetch env' (FetchSeq cache' calls) name = (Inr v, FetchSeq cache' calls)))
   \<and> (Fetcher_Fetch env cache name = (Inl ErrValueTooLarge, cache') \<longrightarrow> cache' = cache)"
proof (intro conjI impI allI)
  fix calls env'
  assume "Fetcher_Fetch env cache name = (Inr v, cache')"
  then have "cache' name = Some v" by (rule Fetcher_Fetch_stores)
  then have "FetchSeq cache' calls name = Some v" by (rule FetchSeq_keeps)
  then show "Fetcher_Fetch env' (FetchSeq cache' calls) name = (Inr v, FetchSeq cache' calls)"
    by (rule Fetcher_Fetch_hit)
next
  assume "Fetcher_Fetch env cache name = (Inl ErrValueTooLarge, cache')"
  then show "cache' = cache"
    by (auto simp: Fetcher_Fetch_def split: option.splits if_splits)
qed

text \<open>
  \<open>HOME\<close> is fetched once; then \<open>USER\<close> is fetched while \<open>HOME\<close> has another value, and
  \<open>HOME\<close> is fetched with nothing set at all: the fetch after that still returns the first
  value. A value of 1048577 bytes is refused and the cache keeps its one entry.
\<close>

theorem fetch_cached_for_lifetime_witness:
  "Fetcher_Fetch [''HOME'' \<mapsto> ''/root''] Map.empty ''HOME'' = (Inr ''/root'', [''HOME'' \<mapsto> ''/root''])
   \<and> Fetcher_Fetch Map.empty
        (FetchSeq [''HOME'' \<mapsto> ''/root''] [([''HOME'' \<mapsto> ''/tmp'', ''USER'' \<mapsto> ''u''], ''USER''), (Map.empty, ''HOME'')])
        ''HOME''
      = (Inr ''/root'',
         FetchSeq [''HOME'' \<mapsto> ''/root''] [([''HOME'' \<mapsto> ''/tmp'', ''USER'' \<mapsto> ''u''], ''USER''), (Map.empty, ''HOME'')])
   \<and> Fetcher_Fetch [''BIG'' \<mapsto> replicate 1048577 (CHR ''x'')] [''HOME'' \<mapsto> ''/root''] ''BIG''
      = (Inl ErrValueTooLarge, [''HOME'' \<mapsto> ''/root''])"
proof -
  have a: "Fetcher_Fetch [''HOME'' \<mapsto> ''/root''] Map.empty ''HOME'' = (Inr ''/root'', [''HOME'' \<mapsto> ''/root''])"
    by (simp add: Fetcher_Fetch_def MaxValueSize_def)
  have b: "Fetcher_Fetch [''BIG'' \<mapsto> replicate 1048577 (CHR ''x'')] [''HOME'' \<mapsto> ''/root''] ''BIG''
      = (Inl ErrValueTooLarge, [''HOME'' \<mapsto> ''/root''])"
    by (simp add: Fetcher_Fetch_def MaxValueSize_def)
  show ?thesis
    using a b
      fetch_cached_for_lifetime [of "[''HOME'' \<mapsto> ''/root'']" Map.empty "''HOME''" "''/root''" "[''HOME'' \<mapsto> ''/root'']"]
    by blast
qed

section \<open>The path resolver\<close>

lemmas trim_defs = TrimSpace_def asciiSpace_def isSpace2_def isSpace3_def byte_def

lemma firstBlankFrom_None:
  "(firstBlankFrom i path = None) = (\<forall>s \<in> set path. TrimSpace s \<noteq> [])"
  by (induction path arbitrary: i) auto

text \<open>
  C10 (amended). For every valid configuration with \<open>case_transform = preserve\<close> and every
  path of at least one segment, none of them empty or only white space, the resolved name
  is the segments joined with the separator, byte for byte, after the prefix when the
  prefix mode is \<open>prepend\<close> (the prefix may be empty); in \<open>filter_only\<close> mode it is the
  joined segments alone.
\<close>

theorem preserve_prepends_prefix:
  assumes "ValidateConfig cfg = None"
    and "CaseTransform cfg = ''preserve''"
    and "path \<noteq> []"
    and "\<forall>s \<in> set path. TrimSpace s \<noteq> []"
  shows "Transform (NewResolver (Separator cfg) (CaseTransform cfg) (Prefix cfg) (PrefixMode cfg)) path
         = Inr ((if PrefixMode cfg = ''prepend'' then Prefix cfg else []) @ Join path (Separator cfg))"
proof -
  have blank: "firstBlankFrom 0 path = None"
    using assms(4) by (simp add: firstBlankFrom_None)
  have segs: "TransformSegments path ''preserve'' = path"
    by (simp add: TransformSegments_def TransformSegment_def)
  have mode: "PrefixMode cfg = ''prepend'' \<or> PrefixMode cfg = ''filter_only''"
    using assms(1) by (auto simp: ValidateConfig_def split: if_splits)
  show ?thesis
    using blank segs mode assms(2,3)
    by (auto simp: Transform_def NewResolver_def ApplyPrefix_def PrependPrefix_def Let_def)
qed

theorem preserve_prepends_prefix_witness:
  "ValidateConfig (DefaultConfig\<lparr>CaseTransform := ''preserve'', Prefix := ''MYAPP_''\<rparr>) = None
   \<and> Transform (NewResolver ''_'' ''preserve'' ''MYAPP_'' ''prepend'') [''db'', ''Host'']
       = Inr ''MYAPP_db_Host''"
proof -
  have v: "ValidateConfig (DefaultConfig\<lparr>CaseTransform := ''preserve'', Prefix := ''MYAPP_''\<rparr>) = None"
    by (simp add: ValidateConfig_def DefaultConfig_def)
  have t: "\<forall>s \<in> set [''db'', ''Host'']. TrimSpace s \<noteq> []"
    by (simp add: trim_defs)
  show ?thesis
    using v preserve_prepends_prefix [OF v _ _ t]
    by (simp add: DefaultConfig_def)
qed

text \<open>
  C10 as stated fails. With the prefix \<open>MYAPP_\<close> in \<open>prepend\<close> mode the name resolved for
  \<open>db, Host\<close> is \<open>MYAPP_db_Host\<close>, not the joined segments \<open>db_Host\<close>. And a path with
  one good segment and one segment of white space has no resolved name at all.
\<close>

theorem preserve_join_counterexample:
  "ValidateConfig (DefaultConfig\<lparr>CaseTransform := ''preserve'', Prefix := ''MYAPP_''\<rparr>) = None
   \<and> Transform (NewResolver ''_'' ''preserve'' ''MYAPP_'' ''prepend'') [''db'', ''Host'']
       \<noteq> Inr (Join [''db'', ''Host''] ''_'')
   \<and> ValidateConfig (DefaultConfig\<lparr>CaseTransform := ''preserve''\<rparr>) = None
   \<and> Transform (NewResolver ''_'' ''preserve'' [] ''prepend'') [''db'', '' '']
       = Inl ErrEmptySegment"
  by (simp add: ValidateConfig_def DefaultConfig_def Transform_def NewResolver_def ApplyPrefix_def Let_def
      PrependPrefix_def TransformSegments_def TransformSegment_def trim_defs)

section \<open>The configuration validator\<close>

text \<open>
  C9. The separator check counts bytes: the single character U+00E9, two bytes in UTF-8,
  is refused as a separator, with the message that asks for a single character.
\<close>

theorem separator_multibyte_rejected:
  "ValidateConfig (DefaultConfig\<lparr>Separator := [CHR 0xC3, CHR 0xA9]\<rparr>)
     = Some (SeparatorNotSingle [CHR 0xC3, CHR 0xA9])"
  by (simp add: ValidateConfig_def DefaultConfig_def)

section \<open>The lifecycle\<close>

text \<open>
  C3. For every path and every environment, a \<open>Fetch\<close> on an instance whose state is not
  \<open>Ready\<close> (so also \<open>Uninitialized\<close> or \<open>Initializing\<close>) fails with the status
  \<open>FailedPrecondition\<close>, returns no value and leaves the instance as it was.
\<close>

theorem fetch_requires_ready:
  "GetState p \<noteq> StateReady \<Longrightarrow>
     Fetch env p path = (Inl (Status FailedPrecondition ProviderNotInitialized), p)"
  by (simp add: Fetch_def)

text \<open>A new instance is \<open>Uninitialized\<close>; the same instance moved to \<open>Initializing\<close> is
  the second case. The variable asked for is set in both.\<close>

theorem fetch_requires_ready_witness:
  "GetState New \<noteq> StateReady
   \<and> Fetch [''API_KEY'' \<mapsto> ''k''] New [''API_KEY''] = (Inl (Status FailedPrecondition ProviderNotInitialized), New)
   \<and> GetState (setState New StateInitializing) \<noteq> StateReady
   \<and> Fetch [''API_KEY'' \<mapsto> ''k''] (setState New StateInitializing) [''API_KEY'']
       = (Inl (Status FailedPrecondition ProviderNotInitialized), setState New StateInitializing)"
proof -
  have a: "GetState New \<noteq> StateReady" by (simp add: GetState_def New_def)
  have b: "GetState (setState New StateInitializing) \<noteq> StateReady"
    by (simp add: GetState_def setState_def)
  show ?thesis
    using a b fetch_requires_ready [OF a] fetch_requires_ready [OF b] by simp
qed

lemma filter_missing_nonempty:
  "(\<exists>v \<in> set vs. env v = None) \<Longrightarrow> filter (\<lambda>varName. env varName = None) vs \<noteq> [] \<and> vs \<noteq> []"
  by (induction vs) auto

text \<open>
  C7. When the configuration of an \<open>Init\<close> request validates and at least one of its
  required variables is not set in the environment, \<open>Init\<close> fails with one error that
  carries every required name that is not set, in the order of the list, and the instance
  is afterwards in state \<open>Uninitialized\<close> with nothing else changed.
\<close>

theorem init_reports_all_missing:
  assumes "ValidateConfig (ParseConfig (ConfigStruct req)) = None"
    and "\<exists>v \<in> set (RequiredVariables (ParseConfig (ConfigStruct req))). env v = None"
  shows "Init env p req =
           (Inl (Status InvalidArgument
                   (RequiredVariablesMissing
                      (filter (\<lambda>v. env v = None) (RequiredVariables (ParseConfig (ConfigStruct req)))))),
            p\<lparr>state := StateUninitialized\<rparr>)"
  using assms(1) filter_missing_nonempty [OF assms(2)]
  by (simp add: Init_def Let_def setState_def)

lemmas cfg_defs = ParseConfig_def DefaultConfig_def getString_def getBool_def getStringList_def

text \<open>The required variables are \<open>DB_URL\<close> and \<open>API_KEY\<close> and only \<open>DB_URL\<close> is set: the
  error lists \<open>API_KEY\<close> alone.\<close>

theorem init_reports_all_missing_witness:
  "Init [''DB_URL'' \<mapsto> ''postgres://db''] New
     \<lparr> Alias = ''env'',
       ConfigStruct = Some [(''required_variables'', VSlice [VString ''DB_URL'', VString ''API_KEY''])] \<rparr>
   = (Inl (Status InvalidArgument (RequiredVariablesMissing [''API_KEY''])), New)"
proof -
  let ?req = "\<lparr> Alias = ''env'',
       ConfigStruct = Some [(''required_variables'', VSlice [VString ''DB_URL'', VString ''API_KEY''])] \<rparr>"
  define env :: environ where "env = [''DB_URL'' \<mapsto> ''postgres://db'']"
  have e: "env ''DB_URL'' = Some ''postgres://db''" "env ''API_KEY'' = None"
    by (simp_all add: env_def)
  have c: "ParseConfig (ConfigStruct ?req) = DefaultConfig\<lparr>RequiredVariables := [''DB_URL'', ''API_KEY'']\<rparr>"
    by (simp add: cfg_defs)
  have v: "ValidateConfig (ParseConfig (ConfigStruct ?req)) = None"
    unfolding c by (simp add: ValidateConfig_def DefaultConfig_def trim_defs)
  have m: "\<exists>v \<in> set (RequiredVariables (ParseConfig (ConfigStruct ?req))). env v = None"
    unfolding c using e by simp
  have "Init env New ?req = (Inl (Status InvalidArgument (RequiredVariablesMissing [''API_KEY''])), New)"
    using init_reports_all_missing [OF v m, of New] e unfolding c
    by (simp add: New_def)
  then show ?thesis unfolding env_def .
qed

text \<open>
  C8 (amended). \<open>Init\<close> does not look at the state of the instance. In every state, with a
  configuration that validates and whose required variables are all set, it stores the
  configuration, the alias and a resolver built from the configuration, keeps the fetcher
  if there is one, and moves to \<open>Ready\<close>; and an \<open>Init\<close> that fails changes nothing but
  the state, which becomes \<open>Uninitialized\<close>.
\<close>

theorem init_in_any_state:
  "(ValidateConfig (ParseConfig (ConfigStruct req)) = None
      \<and> (\<forall>v \<in> set (RequiredVariables (ParseConfig (ConfigStruct req))). env v \<noteq> None)
    \<longrightarrow> Init env p req =
          (Inr (),
           p\<lparr> alias' := Alias req,
              config := Some (ParseConfig (ConfigStruct req)),
              fetcher := Some (case fetcher p of None \<Rightarrow> NewFetcher | Some f \<Rightarrow> f),
              resolver := Some (NewResolver (Separator (ParseConfig (ConfigStruct req)))
                                  (CaseTransform (ParseConfig (ConfigStruct req)))
                                  (Prefix (ParseConfig (ConfigStruct req)))
                                  (PrefixMode (ParseConfig (ConfigStruct req)))),
              state := StateReady \<rparr>))
   \<and> (fst (Init env p req) \<noteq> Inr () \<longrightarrow> snd (Init env p req) = p\<lparr>state := StateUninitialized\<rparr>)"
proof (intro conjI impI)
  assume a: "ValidateConfig (ParseConfig (ConfigStruct req)) = None
      \<and> (\<forall>v \<in> set (RequiredVariables (ParseConfig (ConfigStruct req))). env v \<noteq> None)"
  then have "filter (\<lambda>varName. env varName = None) (RequiredVariables (ParseConfig (ConfigStruct req))) = []"
    by (simp add: filter_empty_conv)
  with a show "Init env p req =
          (Inr (),
           p\<lparr> alias' := Alias req,
              config := Some (ParseConfig (ConfigStruct req)),
              fetcher := Some (case fetcher p of None \<Rightarrow> NewFetcher | Some f \<Rightarrow> f),
              resolver := Some (NewResolver (Separator (ParseConfig (ConfigStruct req)))
                                  (CaseTransform (ParseConfig (ConfigStruct req)))
                                  (Prefix (ParseConfig (ConfigStruct req)))
                                  (PrefixMode (ParseConfig (ConfigStruct req)))),
              state := StateReady \<rparr>)"
    by (cases "fetcher p") (simp_all add: Init_def Let_def setState_def)
next
  assume "fst (Init env p req) \<noteq> Inr ()"
  then show "snd (Init env p req) = p\<lparr>state := StateUninitialized\<rparr>"
    by (auto simp: Init_def Let_def setState_def split: option.splits if_splits)
qed

text \<open>An \<open>Init\<close> on a stopped instance succeeds, and a failing \<open>Init\<close> on a ready one
  leaves it \<open>Uninitialized\<close>.\<close>

theorem init_in_any_state_witness:
  "Init Map.empty (setState New StateStopped) \<lparr> Alias = ''second'', ConfigStruct = Some [(''separator'', VString ''-'')] \<rparr>
     = (Inr (),
        \<lparr> alias' = ''second'', config = Some (DefaultConfig\<lparr>Separator := ''-''\<rparr>), fetcher = Some NewFetcher,
          resolver = Some (NewResolver ''-'' ''upper'' [] ''prepend''), state = StateReady \<rparr>)
   \<and> fst (Init Map.empty (setState New StateReady) \<lparr> Alias = ''bad'', ConfigStruct = Some [(''separator'', VString ''--'')] \<rparr>) \<noteq> Inr ()
   \<and> snd (Init Map.empty (setState New StateReady) \<lparr> Alias = ''bad'', ConfigStruct = Some [(''separator'', VString ''--'')] \<rparr>)
       = New"
proof -
  let ?r1 = "\<lparr> Alias = ''second'', ConfigStruct = Some [(''separator'', VString ''-'')] \<rparr>"
  let ?r2 = "\<lparr> Alias = ''bad'', ConfigStruct = Some [(''separator'', VString ''--'')] \<rparr>"
  have c1: "ParseConfig (ConfigStruct ?r1) = DefaultConfig\<lparr>Separator := ''-''\<rparr>"
    by (simp add: cfg_defs)
  have v1: "ValidateConfig (ParseConfig (ConfigStruct ?r1)) = None
      \<and> (\<forall>v \<in> set (RequiredVariables (ParseConfig (ConfigStruct ?r1))). Map.empty v \<noteq> None)"
    unfolding c1 by (simp add: ValidateConfig_def DefaultConfig_def)
  have f2: "fst (Init Map.empty (setState New StateReady) ?r2) \<noteq> Inr ()"
    by (simp add: Init_def Let_def cfg_defs ValidateConfig_def)
  show ?thesis
    using v1 f2 init_in_any_state [of ?r1 Map.empty "setState New StateStopped"]
      init_in_any_state [of ?r2 Map.empty "setState New StateReady"]
    unfolding c1
    by (simp add: New_def setState_def DefaultConfig_def)
qed

text \<open>
  C8 as stated fails. After a first \<open>Init\<close> the instance is \<open>Ready\<close> with the default
  configuration; a second \<open>Init\<close> on it runs, succeeds and replaces the configuration
  (here by one in \<open>filter_only\<close> mode), as the integration test of the two prefix modes
  does.
\<close>

theorem init_only_when_uninitialized_counterexample:
  "state (snd (Init Map.empty New \<lparr> Alias = ''first'', ConfigStruct = None \<rparr>)) = StateReady
   \<and> config (snd (Init Map.empty New \<lparr> Alias = ''first'', ConfigStruct = None \<rparr>)) = Some DefaultConfig
   \<and> Init Map.empty (snd (Init Map.empty New \<lparr> Alias = ''first'', ConfigStruct = None \<rparr>))
        \<lparr> Alias = ''second'', ConfigStruct = Some [(''prefix_mode'', VString ''filter_only'')] \<rparr>
     = (Inr (),
        \<lparr> alias' = ''second'', config = Some (DefaultConfig\<lparr>PrefixMode := ''filter_only''\<rparr>),
          fetcher = Some NewFetcher, resolver = Some (NewResolver ''_'' ''upper'' [] ''filter_only''),
          state = StateReady \<rparr>)"
  by (simp add: Init_def Let_def cfg_defs ValidateConfig_def setState_def New_def)

section \<open>JSON nesting depth\<close>




lemmas scan_defs = skipSpace_def jsonSpace_def unquote_def byte_def simpleEscape_def
  seq2_def seq3_def seq4_def cont_def



lemma TrimLeftSpace_keep:
  "byte a < 0x80 \<Longrightarrow> \<not> asciiSpace a \<Longrightarrow> TrimLeftSpace (a # cs) = a # cs"
  by (cases "a # cs" rule: TrimLeftSpace.cases) (auto simp: isSpace2_def isSpace3_def)

lemma TrimRightSpaceRev_keep:
  "byte c < 0x80 \<Longrightarrow> \<not> asciiSpace c \<Longrightarrow> TrimRightSpaceRev (c # cs) = c # cs"
  by (cases "c # cs" rule: TrimRightSpaceRev.cases) (auto simp: isSpace2_def isSpace3_def)

lemma TrimSpace_keep:
  assumes "s \<noteq> []"
    and "byte (hd s) < 0x80" and "\<not> asciiSpace (hd s)"
    and "byte (last s) < 0x80" and "\<not> asciiSpace (last s)"
  shows "TrimSpace s = s"
proof -
  obtain a cs where s: "s = a # cs" using assms(1) by (cases s) auto
  have l: "TrimLeftSpace s = s"
    using assms(2,3) unfolding s by (simp add: TrimLeftSpace_keep)
  have r: "rev s = last s # rev (butlast s)"
    using assms(1) by (metis append_butlast_last_id rev.simps(2) rev_append rev_rev_ident append_Nil rev.simps(1) append_Cons)
  have "TrimRightSpaceRev (rev s) = rev s"
    using assms(4,5) by (subst r, subst r) (simp add: TrimRightSpaceRev_keep)
  then show ?thesis by (simp add: TrimSpace_def l)
qed





















lemmas parse_numeral =
  parseValue.simps(2) [where n = "pred_numeral k", folded numeral_eq_Suc]
  parseElements.simps(2) [where n = "pred_numeral k", folded numeral_eq_Suc]
  parseMembers.simps(2) [where n = "pred_numeral k", folded numeral_eq_Suc]
  for k

lemmas pf_defs = ParseFloat_def ParseDecimal_def ToLower_def lowerByte_def splitSign_def
  isDigit_def scaleDecimal_def

lemmas json_eval = Unmarshal_def parse_numeral scan_defs scanNumber_def pf_defs maxNestingDepth_def

lemma Unmarshal_unclosed: "Unmarshal ''{\"a\":1'' = None"
  by (simp add: json_eval)




section \<open>The type converter\<close>

lemma sniff_nonempty:
  "HasPrefix (TrimSpace v) ''{'' \<or> HasPrefix (TrimSpace v) ''['' \<Longrightarrow> v \<noteq> []"
  by (auto simp: TrimSpace_def)

text \<open>
  C5 (amended). Let JSON parsing be enabled and let the input, trimmed of white space,
  start with \<open>{\<close> or \<open>[\<close>. If the input is at most 1 MiB long and does not parse as JSON,
  the conversion fails with \<open>ErrInvalidJSON\<close>. And whatever its length, the conversion
  never returns the raw string: what it returns is the parsed value, with a type name
  other than \<open>string\<close>.
\<close>

theorem malformed_json_is_error:
  assumes "HasPrefix (TrimSpace v) ''{'' \<or> HasPrefix (TrimSpace v) ''[''"
  shows "(length v \<le> MaxValueSizeConv \<and> Unmarshal v = None \<longrightarrow>
            ConvertValue v tc True = Inl ErrInvalidJSON)
       \<and> (\<forall>r t. ConvertValue v tc True = Inr (r, t) \<longrightarrow> TryJSON v = Inr r \<and> t \<noteq> ''string'')"
proof -
  have ne: "v \<noteq> []" using assms by (rule sniff_nonempty)
  show ?thesis
    using assms ne
    by (auto simp: ConvertValue_def Let_def TryJSON_def split: sum.splits option.splits if_splits)
qed

lemma Init_defaults:
  "Init env New \<lparr> Alias = a, ConfigStruct = None \<rparr> =
     (Inr (), \<lparr> alias' = a, config = Some DefaultConfig, fetcher = Some Map.empty,
                resolver = Some (NewResolver ''_'' ''upper'' [] ''prepend''), state = StateReady \<rparr>)"
  by (simp add: Init_def Let_def cfg_defs ValidateConfig_def setState_def New_def NewFetcher_def)

text \<open>The object \<open>{"a":1\<close> without its closing brace, converted directly and fetched
  from a variable under the default configuration.\<close>

theorem malformed_json_is_error_witness:
  "(HasPrefix (TrimSpace ''{\"a\":1'') ''{'' \<or> HasPrefix (TrimSpace ''{\"a\":1'') ''['')
   \<and> length ''{\"a\":1'' \<le> MaxValueSizeConv
   \<and> Unmarshal ''{\"a\":1'' = None
   \<and> ConvertValue ''{\"a\":1'' True True = Inl ErrInvalidJSON
   \<and> fst (Fetch [''CFG'' \<mapsto> ''{\"a\":1'']
            (snd (Init [''CFG'' \<mapsto> ''{\"a\":1''] New \<lparr> Alias = ''env'', ConfigStruct = None \<rparr>))
            [''CFG''])
      = Inl (Status InvalidArgument (TypeConversionFailed ErrInvalidJSON))"
proof -
  have s: "HasPrefix (TrimSpace ''{\"a\":1'') ''{'' \<or> HasPrefix (TrimSpace ''{\"a\":1'') ''[''"
    by (simp add: trim_defs)
  have l: "length ''{\"a\":1'' \<le> MaxValueSizeConv" by (simp add: MaxValueSizeConv_def)
  have c: "ConvertValue ''{\"a\":1'' True True = Inl ErrInvalidJSON"
    using malformed_json_is_error [OF s, of True] l Unmarshal_unclosed by simp
  define env :: environ where "env = [''CFG'' \<mapsto> ''{\"a\":1'']"
  have e: "env ''CFG'' = Some ''{\"a\":1''" by (simp add: env_def)
  have "fst (Fetch env (snd (Init env New \<lparr> Alias = ''env'', ConfigStruct = None \<rparr>)) [''CFG''])
      = Inl (Status InvalidArgument (TypeConversionFailed ErrInvalidJSON))"
    unfolding Init_defaults
    using e c
    by (simp add: Fetch_def GetState_def trim_defs DefaultConfig_def Fetcher_Fetch_def
        MaxValueSize_def convertValue_def)
  then show ?thesis using s l c Unmarshal_unclosed unfolding env_def by blast
qed

lemma parse_brace_x:
  "parseValue (Suc (Suc n)) d (CHR ''{'' # CHR ''x'' # rest) = None"
  by (simp add: scan_defs)

lemma Unmarshal_brace_x: "Unmarshal (CHR ''{'' # CHR ''x'' # rest) = None"
proof -
  have "2 * length (CHR ''{'' # CHR ''x'' # rest) + 2 = Suc (Suc (2 * length rest + 4))"
    by simp
  then show ?thesis
    unfolding Unmarshal_def by (simp only: parse_brace_x option.case)
qed

lemma replicate_big: "replicate 1048576 c = c # replicate 1048575 c"
proof -
  have "replicate (Suc 1048575) c = c # replicate 1048575 c" by (rule replicate_Suc)
  then show ?thesis by simp
qed

text \<open>
  C5 as stated fails for an input over the size limit: an opening brace followed by
  1048576 letters starts with \<open>{\<close> and is not JSON, and its conversion fails with
  \<open>ErrValueTooLargeConv\<close>, the size check coming before everything else.
\<close>

theorem malformed_json_counterexample:
  "(HasPrefix (TrimSpace (CHR ''{'' # replicate 1048576 (CHR ''x''))) ''{''
      \<or> HasPrefix (TrimSpace (CHR ''{'' # replicate 1048576 (CHR ''x''))) ''['')
   \<and> Unmarshal (CHR ''{'' # replicate 1048576 (CHR ''x'')) = None
   \<and> ConvertValue (CHR ''{'' # replicate 1048576 (CHR ''x'')) True True = Inl ErrValueTooLargeConv
   \<and> ConvertValue (CHR ''{'' # replicate 1048576 (CHR ''x'')) True True \<noteq> Inl ErrInvalidJSON"
proof -
  let ?big = "CHR ''{'' # replicate 1048576 (CHR ''x'')"
  have t: "TrimSpace ?big = ?big"
    by (rule TrimSpace_keep) (simp_all add: asciiSpace_def byte_def)
  have u: "Unmarshal ?big = None"
    unfolding replicate_big by (rule Unmarshal_brace_x)
  have c: "ConvertValue ?big True True = Inl ErrValueTooLargeConv"
    by (simp add: ConvertValue_def MaxValueSizeConv_def)
  show ?thesis using t u c by simp
qed

lemma TryNumeric_empty: "TryNumeric [] = None"
  by (simp add: TryNumeric_def pf_defs)

lemma TryBoolean_empty: "TryBoolean [] = None"
  by (simp add: TryBoolean_def TrimSpace_def ToLower_def)

lemmas conv_eval = ConvertValue_def MaxValueSizeConv_def trim_defs TryNumeric_def TryBoolean_def pf_defs

lemma ConvertValue_unfold:
  assumes "length v \<le> MaxValueSizeConv"
  shows "ConvertValue v tc jp =
      (if jp \<and> (HasPrefix (TrimSpace v) ''{'' \<or> HasPrefix (TrimSpace v) ''['') then
         (case TryJSON v of
            Inl err \<Rightarrow> Inl err
          | Inr r \<Rightarrow> Inr (r, if isSlice r then ''array'' else ''object''))
       else if \<not> tc then Inr (VString v, ''string'')
       else (case TryNumeric v of
               Some n \<Rightarrow> Inr (VFloat n, ''number'')
             | None \<Rightarrow>
                 (case TryBoolean v of
                    Some b \<Rightarrow> Inr (VBool b, ''boolean'')
                  | None \<Rightarrow> Inr (VString v, ''string''))))"
proof (cases "v = []")
  case True
  then show ?thesis
    by (simp add: ConvertValue_def MaxValueSizeConv_def TrimSpace_def TryNumeric_empty TryBoolean_empty)
next
  case False
  then show ?thesis
    using assms by (simp add: ConvertValue_def Let_def)
qed

text \<open>
  C1 (amended). For every input of at most 1 MiB the conversion follows one fixed order.
  If JSON parsing is enabled and the input, trimmed of white space, starts with \<open>{\<close> or
  \<open>[\<close>, the result is that of \<open>TryJSON\<close>. Otherwise, if type conversion is enabled, the
  result is the number when \<open>TryNumeric\<close> succeeds, else the boolean when \<open>TryBoolean\<close>
  succeeds, else the input as a string; if type conversion is disabled it is the input as
  a string. So \<open>42\<close> becomes the number 42, \<open>true\<close> the boolean, \<open>1\<close> the number 1 and not
  a boolean, and the empty input the empty string, whatever is enabled.
\<close>

theorem convert_precedence:
  assumes "length v \<le> MaxValueSizeConv"
  shows "(jp \<and> (HasPrefix (TrimSpace v) ''{'' \<or> HasPrefix (TrimSpace v) ''['') \<longrightarrow>
            ConvertValue v tc jp =
              (case TryJSON v of
                 Inl err \<Rightarrow> Inl err
               | Inr r \<Rightarrow> Inr (r, if isSlice r then ''array'' else ''object'')))
       \<and> (\<not> (jp \<and> (HasPrefix (TrimSpace v) ''{'' \<or> HasPrefix (TrimSpace v) ''['')) \<and> tc \<longrightarrow>
            ConvertValue v tc jp =
              (case TryNumeric v of
                 Some n \<Rightarrow> Inr (VFloat n, ''number'')
               | None \<Rightarrow>
                   (case TryBoolean v of
                      Some b \<Rightarrow> Inr (VBool b, ''boolean'')
                    | None \<Rightarrow> Inr (VString v, ''string''))))
       \<and> (\<not> (jp \<and> (HasPrefix (TrimSpace v) ''{'' \<or> HasPrefix (TrimSpace v) ''['')) \<and> \<not> tc \<longrightarrow>
            ConvertValue v tc jp = Inr (VString v, ''string''))
       \<and> ConvertValue ''42'' True True = Inr (VFloat (Finite 42), ''number'')
       \<and> ConvertValue ''true'' True True = Inr (VBool True, ''boolean'')
       \<and> ConvertValue ''1'' True True = Inr (VFloat (Finite 1), ''number'')
       \<and> ConvertValue [] tc jp = Inr (VString [], ''string'')"
proof (intro conjI impI)
  show "ConvertValue ''42'' True True = Inr (VFloat (Finite 42), ''number'')"
    by (simp add: conv_eval)
  show "ConvertValue ''true'' True True = Inr (VBool True, ''boolean'')"
    by (simp add: conv_eval)
  show "ConvertValue ''1'' True True = Inr (VFloat (Finite 1), ''number'')"
    by (simp add: conv_eval)
  show "ConvertValue [] tc jp = Inr (VString [], ''string'')"
    by (simp add: ConvertValue_def MaxValueSizeConv_def)
qed (auto simp: ConvertValue_unfold [OF assms])

text \<open>Inputs within the size limit: a boolean, a number after a blank (a string, since
  the numeric parse does not trim), a number with type conversion disabled, and an array
  after a blank.\<close>

theorem convert_precedence_witness:
  "length ''Yes'' \<le> MaxValueSizeConv
   \<and> ConvertValue ''Yes'' True True = Inr (VBool True, ''boolean'')
   \<and> length '' 42'' \<le> MaxValueSizeConv
   \<and> ConvertValue '' 42'' True True = Inr (VString '' 42'', ''string'')
   \<and> ConvertValue ''1e3'' False True = Inr (VString ''1e3'', ''string'')
   \<and> ConvertValue '' [[1],{\"a\":[[]]}]'' True True
       = Inr (VSlice [VSlice [VFloat (Finite 1)], VMap [(''a'', VSlice [VSlice []])]], ''array'')"
proof -
  have l: "length ''Yes'' \<le> MaxValueSizeConv" "length '' 42'' \<le> MaxValueSizeConv"
    "length ''1e3'' \<le> MaxValueSizeConv" "length '' [[1],{\"a\":[[]]}]'' \<le> MaxValueSizeConv"
    by (simp_all add: MaxValueSizeConv_def)
  have s: "\<not> (HasPrefix (TrimSpace ''Yes'') ''{'' \<or> HasPrefix (TrimSpace ''Yes'') ''['')"
    "\<not> (HasPrefix (TrimSpace '' 42'') ''{'' \<or> HasPrefix (TrimSpace '' 42'') ''['')"
    "\<not> (HasPrefix (TrimSpace ''1e3'') ''{'' \<or> HasPrefix (TrimSpace ''1e3'') ''['')"
    "HasPrefix (TrimSpace '' [[1],{\"a\":[[]]}]'') ''{'' \<or> HasPrefix (TrimSpace '' [[1],{\"a\":[[]]}]'') ''[''"
    by (simp_all add: trim_defs)
  have n: "TryNumeric ''Yes'' = None" "TryNumeric '' 42'' = None"
    by (simp_all add: TryNumeric_def pf_defs byte_def)
  have b: "TryBoolean ''Yes'' = Some True" "TryBoolean '' 42'' = None"
    by (simp_all add: TryBoolean_def trim_defs ToLower_def lowerByte_def char_of_def bit_Suc_0_iff)
  have j: "TryJSON '' [[1],{\"a\":[[]]}]''
             = Inr (VSlice [VSlice [VFloat (Finite 1)], VMap [(''a'', VSlice [VSlice []])]])"
    by (simp add: TryJSON_def json_eval MaxJSONDepth_def)
  show ?thesis
    using l s n b j
      convert_precedence [OF l(1), of True True]
      convert_precedence [OF l(2), of True True]
      convert_precedence [OF l(3), of True False]
      convert_precedence [OF l(4), of True True]
    by (simp add: isSlice_def)
qed

text \<open>
  C1 as stated fails for an input over the size limit: with JSON parsing disabled and
  type conversion enabled, 1048577 letters are converted to no number, boolean or string;
  the conversion fails with \<open>ErrValueTooLargeConv\<close>.
\<close>

theorem convert_precedence_counterexample:
  "ConvertValue (replicate 1048577 (CHR ''x'')) True False = Inl ErrValueTooLargeConv"
  by (simp add: ConvertValue_def MaxValueSizeConv_def)

section \<open>Single-segment paths\<close>







end
